theory Spec2Isabelle
  imports Main "HOL-Library.Word"
begin

section \<open>The blockchain event indexer of pinai\_agent\_sdk\<close>

text \<open>
  A shallow embedding of \<^verbatim>\<open>pinai_agent_sdk/indexer.py\<close> (class \<^verbatim>\<open>BlockchainIndexer\<close>).
  The fields of \<^verbatim>\<open>self\<close> are a record, the collaborators (the web3 client, the contract
  handle, \<^verbatim>\<open>requests\<close>) are functions over an abstract world \<open>'w\<close>, every exception is
  a value, and every external call, log record and sleep is appended to a trace, so that
  "how many POSTs" and "how many fetches" are statements about that trace.
\<close>

subsection \<open>Bytes, \<^verbatim>\<open>HexBytes.hex()\<close> and \<^verbatim>\<open>int(s, 16)\<close>\<close>

type_synonym byte = "8 word"

datatype exn =
    IndexError
  | ValueError
  | AttributeError
  | ClientError string

definition hex_digit :: "nat \<Rightarrow> char" where
  "hex_digit n = char_of (if n < 10 then 48 + n else 87 + n)"

definition hex_byte :: "byte \<Rightarrow> string" where
  "hex_byte b = [hex_digit (unat b div 16), hex_digit (unat b mod 16)]"

definition bytes_hex :: "byte list \<Rightarrow> string" where
  "bytes_hex bs = concat (map hex_byte bs)"

text \<open>
  \<^verbatim>\<open>HexBytes.hex()\<close>: lower-case hex digits, with the prefix \<^verbatim>\<open>0x\<close> in hexbytes before 1.0
  and without it from 1.0 on. The flag selects the library version; the indexer is written
  so that both behave alike.
\<close>

definition hexbytes_hex :: "bool \<Rightarrow> byte list \<Rightarrow> string" where
  "hexbytes_hex pfx bs = (if pfx then ''0x'' else '''') @ bytes_hex bs"

definition hex_val :: "char \<Rightarrow> nat option" where
  "hex_val ch =
     (let n = (of_char ch :: nat) in
      if 48 \<le> n \<and> n \<le> 57 then Some (n - 48)
      else if 97 \<le> n \<and> n \<le> 102 then Some (n - 87)
      else if 65 \<le> n \<and> n \<le> 70 then Some (n - 55)
      else None)"

fun parse_hex :: "int \<Rightarrow> string \<Rightarrow> exn + int" where
  "parse_hex acc [] = Inr acc"
| "parse_hex acc (ch # cs) =
     (case hex_val ch of
        None \<Rightarrow> Inl ValueError
      | Some d \<Rightarrow> parse_hex (16 * acc + int d) cs)"

text \<open>
  \<^verbatim>\<open>int(s, 16)\<close> on the strings the indexer passes to it: an optional \<^verbatim>\<open>0x\<close>/\<^verbatim>\<open>0X\<close> prefix,
  then at least one hex digit; anything else raises ValueError. (Python also accepts a
  sign, surrounding blanks and underscores between digits; \<^verbatim>\<open>hex()\<close> produces none of them.)
\<close>

definition py_int16 :: "string \<Rightarrow> exn + int" where
  "py_int16 s =
     (let body = (if take 2 s = ''0x'' \<or> take 2 s = ''0X'' then drop 2 s else s)
      in if body = [] then Inl ValueError else parse_hex 0 body)"

text \<open>The unsigned big-endian value of a byte string.\<close>

fun be_int :: "int \<Rightarrow> byte list \<Rightarrow> int" where
  "be_int acc [] = acc"
| "be_int acc (b # bs) = be_int (256 * acc + uint b) bs"

subsection \<open>Data\<close>

record log_entry =
  topics :: "byte list list"
  data :: "byte list"

record contract =
  address :: string

record filter_params =
  fp_address :: string
  fromBlock :: string

record bid_data =
  orderId :: int
  userId :: string
  agentId :: int
  amount :: int

text \<open>The first two components of the tuple that \<^verbatim>\<open>getOrder\<close> returns (id, amount).\<close>

record order =
  order_id :: int
  order_amount :: int

record response =
  status_code :: int
  json :: "exn + string"

datatype thread = Thread (is_alive: bool)

datatype handler =
    HandleOrderCreated
  | HandleOrderMatched
  | HandleAddressesTracked
  | HandleOrderCompleted

datatype level = DEBUG | INFO | WARNING | ERROR

datatype log_msg =
    ComponentsNotInitialized
  | ServiceStarted
  | IndexerStopped
  | ContractNotInitialized
  | StartingToListen
  | NewEntries "log_entry list"
  | ErrorInIndexer exn
  | ProcessingEvent log_entry
  | ProcessedEvent string
  | ErrorProcessingEvent exn
  | OrderCreatedMsg int string
  | ErrorHandlingOrderCreated exn
  | BaseUrlNotSet
  | BidSubmitted string
  | BidFailed int
  | ErrorSubmittingBid exn
  | OrderMatchedMsg int
  | ErrorHandlingOrderMatched exn
  | OrderCompletedMsg int int
  | ErrorHandlingOrderCompleted exn
  | StoppedListening
  | NoActivePollingThread

text \<open>What the worker does to the outside, in order. Sleeps and joins are in milliseconds.\<close>

datatype action =
    Log level log_msg
  | Sleep nat
  | Join nat
  | ThreadStart
  | GetBlockNumber
  | NewFilter filter_params
  | GetFilterChanges nat
  | GetOrder int
  | HttpPost string bid_data

text \<open>
  The fields of \<^verbatim>\<open>self\<close>. \<open>web3\<close> says whether a client was given (\<^verbatim>\<open>None\<close> otherwise);
  \<open>base_url\<close> is \<open>None\<close> while the attribute does not exist (the constructor does not
  set it).
\<close>

record indexer =
  web3 :: bool
  intent_matching_contract :: "contract option"
  intent_matching_url :: "string option"
  stop_indexing :: bool
  indexer_thread :: "thread option"
  current_room_id :: "int option"
  current_order_id :: "int option"
  base_url :: "string option"

record 'w st =
  self :: indexer
  world :: 'w
  trace :: "action list"

text \<open>
  The collaborators. Each call may raise and may change the world. \<open>new_filter\<close> is
  \<^verbatim>\<open>web3.eth.filter(params).filter_id\<close>; \<open>keccak\<close> is \<^verbatim>\<open>Web3.keccak(text=...)\<close>;
  \<open>hex_prefix\<close> is the library version of \<^verbatim>\<open>HexBytes.hex()\<close>.
\<close>

record 'w client =
  get_block_number :: "'w \<Rightarrow> (exn + int) \<times> 'w"
  new_filter :: "filter_params \<Rightarrow> 'w \<Rightarrow> (exn + nat) \<times> 'w"
  get_filter_changes :: "nat \<Rightarrow> 'w \<Rightarrow> (exn + log_entry list) \<times> 'w"
  get_order :: "int \<Rightarrow> 'w \<Rightarrow> (exn + order) \<times> 'w"
  requests_post :: "string \<Rightarrow> bid_data \<Rightarrow> 'w \<Rightarrow> (exn + response) \<times> 'w"
  keccak :: "string \<Rightarrow> byte list"
  hex_prefix :: bool

subsection \<open>Effects\<close>

definition emit :: "action \<Rightarrow> 'w st \<Rightarrow> 'w st" where
  "emit a s = s\<lparr>trace := trace s @ [a]\<rparr>"

definition logger :: "level \<Rightarrow> log_msg \<Rightarrow> 'w st \<Rightarrow> 'w st" where
  "logger l m s = emit (Log l m) s"

definition time_sleep :: "nat \<Rightarrow> 'w st \<Rightarrow> 'w st" where
  "time_sleep ms s = emit (Sleep ms) s"

definition external :: "action \<Rightarrow> ('w \<Rightarrow> (exn + 'a) \<times> 'w) \<Rightarrow> 'w st \<Rightarrow> (exn + 'a) \<times> 'w st" where
  "external a f s =
     (case f (world s) of (r, w') \<Rightarrow> (r, s\<lparr>world := w', trace := trace s @ [a]\<rparr>))"

text \<open>Attribute access on \<^verbatim>\<open>self.web3\<close> raises AttributeError when it is \<^verbatim>\<open>None\<close>.\<close>

definition eth_get_block_number :: "'w client \<Rightarrow> 'w st \<Rightarrow> (exn + int) \<times> 'w st" where
  "eth_get_block_number c s =
     (if web3 (self s) then external GetBlockNumber (get_block_number c) s
      else (Inl AttributeError, s))"

definition eth_filter :: "'w client \<Rightarrow> filter_params \<Rightarrow> 'w st \<Rightarrow> (exn + nat) \<times> 'w st" where
  "eth_filter c p s =
     (if web3 (self s) then external (NewFilter p) (new_filter c p) s
      else (Inl AttributeError, s))"

definition eth_get_filter_changes :: "'w client \<Rightarrow> nat \<Rightarrow> 'w st \<Rightarrow> (exn + log_entry list) \<times> 'w st" where
  "eth_get_filter_changes c fid s =
     (if web3 (self s) then external (GetFilterChanges fid) (get_filter_changes c fid) s
      else (Inl AttributeError, s))"

definition contract_getOrder :: "'w client \<Rightarrow> int \<Rightarrow> 'w st \<Rightarrow> (exn + order) \<times> 'w st" where
  "contract_getOrder c oid s =
     (case intent_matching_contract (self s) of
        None \<Rightarrow> (Inl AttributeError, s)
      | Some _ \<Rightarrow> external (GetOrder oid) (get_order c oid) s)"

subsection \<open>The event signature table\<close>

definition OrderCreated :: string where
  "OrderCreated = ''OrderCreated(uint256,address,uint8,uint256)''"

definition OrderMatched :: string where
  "OrderMatched = ''OrderMatched(uint256,uint256,string)''"

definition AddressesTracked :: string where
  "AddressesTracked = ''AddressesTracked(uint256,address[])''"

definition OrderCompleted :: string where
  "OrderCompleted = ''OrderCompleted(uint256,uint256)''"

text \<open>
  The dict literal of the constructor: four keys inserted in this order, a later key
  replacing an equal earlier one. It is never assigned again.
\<close>

definition event_signatures :: "'w client \<Rightarrow> string \<rightharpoonup> handler" where
  "event_signatures c =
     [hexbytes_hex (hex_prefix c) (keccak c OrderCreated) \<mapsto> HandleOrderCreated,
      hexbytes_hex (hex_prefix c) (keccak c OrderMatched) \<mapsto> HandleOrderMatched,
      hexbytes_hex (hex_prefix c) (keccak c AddressesTracked) \<mapsto> HandleAddressesTracked,
      hexbytes_hex (hex_prefix c) (keccak c OrderCompleted) \<mapsto> HandleOrderCompleted]"

subsection \<open>Handlers\<close>

text \<open>\<^verbatim>\<open>event['topics'][i]\<close>: IndexError when the list is too short.\<close>

definition topic :: "log_entry \<Rightarrow> nat \<Rightarrow> exn + byte list" where
  "topic ev i = (if i < length (topics ev) then Inr (topics ev ! i) else Inl IndexError)"

text \<open>\<^verbatim>\<open>int(event['topics'][i].hex(), 16)\<close>\<close>

definition topic_int :: "'w client \<Rightarrow> log_entry \<Rightarrow> nat \<Rightarrow> exn + int" where
  "topic_int c ev i =
     (case topic ev i of
        Inl e \<Rightarrow> Inl e
      | Inr t \<Rightarrow> py_int16 (hexbytes_hex (hex_prefix c) t))"

text \<open>\<^verbatim>\<open>s[-40:]\<close>: the last 40 characters, or all of a shorter string.\<close>

definition last40 :: "string \<Rightarrow> string" where
  "last40 s = drop (length s - 40) s"

text \<open>The \<^verbatim>\<open>try\<close> block of \<^verbatim>\<open>_submit_bid\<close>: the POST, then the status test.\<close>

definition submit_bid_body :: "'w client \<Rightarrow> string \<Rightarrow> bid_data \<Rightarrow> 'w st \<Rightarrow> (exn + unit) \<times> 'w st" where
  "submit_bid_body c base bid s =
     (case external (HttpPost (base @ ''/bid'') bid) (requests_post c (base @ ''/bid'') bid) s of
        (Inl e, s1) \<Rightarrow> (Inl e, s1)
      | (Inr r, s1) \<Rightarrow>
          if 200 \<le> status_code r \<and> status_code r < 300 then
            (case json r of
               Inl e \<Rightarrow> (Inl e, s1)
             | Inr j \<Rightarrow> (Inr (), logger INFO (BidSubmitted j) s1))
          else (Inr (), logger ERROR (BidFailed (status_code r)) s1))"

definition submit_bid :: "'w client \<Rightarrow> bid_data \<Rightarrow> 'w st \<Rightarrow> 'w st" where
  "submit_bid c bid s =
     (let s1 = s\<lparr>self := (self s)\<lparr>base_url := Some ''http://localhost:3000''\<rparr>\<rparr> in
      case base_url (self s1) of
        None \<Rightarrow> logger ERROR BaseUrlNotSet s1
      | Some base \<Rightarrow>
          if base = [] then logger ERROR BaseUrlNotSet s1
          else (case submit_bid_body c base bid s1 of
                  (Inl e, s2) \<Rightarrow> logger ERROR (ErrorSubmittingBid e) s2
                | (Inr _, s2) \<Rightarrow> s2))"

definition handle_order_created_body :: "'w client \<Rightarrow> log_entry \<Rightarrow> 'w st \<Rightarrow> (exn + unit) \<times> 'w st" where
  "handle_order_created_body c ev s =
     (case topic_int c ev 1 of
        Inl e \<Rightarrow> (Inl e, s)
      | Inr oid \<Rightarrow>
          (case topic ev 2 of
             Inl e \<Rightarrow> (Inl e, s)
           | Inr t2 \<Rightarrow>
               let user_address = ''0x'' @ last40 (hexbytes_hex (hex_prefix c) t2);
                   s1 = logger INFO (OrderCreatedMsg oid user_address) s;
                   bid = \<lparr>orderId = oid, userId = user_address, agentId = 0, amount = 100\<rparr>
               in (Inr (), submit_bid c bid s1)))"

definition handle_order_created :: "'w client \<Rightarrow> log_entry \<Rightarrow> 'w st \<Rightarrow> 'w st" where
  "handle_order_created c ev s =
     (case handle_order_created_body c ev s of
        (Inl e, s1) \<Rightarrow> logger ERROR (ErrorHandlingOrderCreated e) s1
      | (Inr _, s1) \<Rightarrow> s1)"

definition handle_order_matched_body :: "'w client \<Rightarrow> log_entry \<Rightarrow> 'w st \<Rightarrow> (exn + unit) \<times> 'w st" where
  "handle_order_matched_body c ev s =
     (case topic_int c ev 1 of
        Inl e \<Rightarrow> (Inl e, s)
      | Inr oid \<Rightarrow>
          (case contract_getOrder c oid s of
             (Inl e, s1) \<Rightarrow> (Inl e, s1)
           | (Inr ord, s1) \<Rightarrow>
               let s2 = s1\<lparr>self := (self s1)\<lparr>current_order_id := Some oid\<rparr>\<rparr>
               in (Inr (), logger INFO (OrderMatchedMsg oid) s2)))"

definition handle_order_matched :: "'w client \<Rightarrow> log_entry \<Rightarrow> 'w st \<Rightarrow> 'w st" where
  "handle_order_matched c ev s =
     (case handle_order_matched_body c ev s of
        (Inl e, s1) \<Rightarrow> logger ERROR (ErrorHandlingOrderMatched e) s1
      | (Inr _, s1) \<Rightarrow> s1)"

definition handle_addresses_tracked :: "'w client \<Rightarrow> log_entry \<Rightarrow> 'w st \<Rightarrow> 'w st" where
  "handle_addresses_tracked c ev s = s"

definition handle_order_completed_body :: "'w client \<Rightarrow> log_entry \<Rightarrow> 'w st \<Rightarrow> (exn + unit) \<times> 'w st" where
  "handle_order_completed_body c ev s =
     (case topic_int c ev 1 of
        Inl e \<Rightarrow> (Inl e, s)
      | Inr oid \<Rightarrow>
          (case contract_getOrder c oid s of
             (Inl e, s1) \<Rightarrow> (Inl e, s1)
           | (Inr ord, s1) \<Rightarrow>
               (Inr (), logger INFO (OrderCompletedMsg oid (order_amount ord)) s1)))"

definition handle_order_completed :: "'w client \<Rightarrow> log_entry \<Rightarrow> 'w st \<Rightarrow> 'w st" where
  "handle_order_completed c ev s =
     (case handle_order_completed_body c ev s of
        (Inl e, s1) \<Rightarrow> logger ERROR (ErrorHandlingOrderCompleted e) s1
      | (Inr _, s1) \<Rightarrow> s1)"

fun run_handler :: "handler \<Rightarrow> 'w client \<Rightarrow> log_entry \<Rightarrow> 'w st \<Rightarrow> 'w st" where
  "run_handler HandleOrderCreated = handle_order_created"
| "run_handler HandleOrderMatched = handle_order_matched"
| "run_handler HandleAddressesTracked = handle_addresses_tracked"
| "run_handler HandleOrderCompleted = handle_order_completed"

subsection \<open>The dispatcher\<close>

definition process_event_body :: "'w client \<Rightarrow> log_entry \<Rightarrow> 'w st \<Rightarrow> (exn + unit) \<times> 'w st" where
  "process_event_body c ev s =
     (let s1 = logger INFO (ProcessingEvent ev) s in
      case topic ev 0 of
        Inl e \<Rightarrow> (Inl e, s1)
      | Inr t0 \<Rightarrow>
          let event_signature = hexbytes_hex (hex_prefix c) t0 in
          (case event_signatures c event_signature of
             None \<Rightarrow> (Inr (), s1)
           | Some h \<Rightarrow>
               (Inr (), logger DEBUG (ProcessedEvent event_signature) (run_handler h c ev s1))))"

definition process_event :: "'w client \<Rightarrow> log_entry \<Rightarrow> 'w st \<Rightarrow> 'w st" where
  "process_event c ev s =
     (case process_event_body c ev s of
        (Inl e, s1) \<Rightarrow> logger ERROR (ErrorProcessingEvent e) s1
      | (Inr _, s1) \<Rightarrow> s1)"

text \<open>\<^verbatim>\<open>for event in new_entries: self._process_event(event)\<close>\<close>

primrec process_entries :: "'w client \<Rightarrow> log_entry list \<Rightarrow> 'w st \<Rightarrow> 'w st" where
  "process_entries c [] s = s"
| "process_entries c (ev # evs) s = process_entries c evs (process_event c ev s)"

subsection \<open>The poll loop\<close>

text \<open>How one pass through the \<^verbatim>\<open>try\<close> block of the loop ends.\<close>

datatype outcome = Completed | Continued | Raised exn

text \<open>
  The \<^verbatim>\<open>try\<close> block of the \<^verbatim>\<open>while\<close> loop, with the local \<^verbatim>\<open>last_processed_block\<close> passed
  in and out. The height is read twice, as in the source: once for the comparison and
  once for the assignment. The filter is installed by \<^verbatim>\<open>web3.eth.filter\<close> inside the loop,
  before \<^verbatim>\<open>get_filter_changes\<close> is called with its id.
\<close>

definition loop_body :: "'w client \<Rightarrow> filter_params \<Rightarrow> int \<Rightarrow> 'w st \<Rightarrow> outcome \<times> int \<times> 'w st" where
  "loop_body c contract_filter last_processed_block s =
     (case eth_get_block_number c s of
        (Inl e, s1) \<Rightarrow> (Raised e, last_processed_block, s1)
      | (Inr h, s1) \<Rightarrow>
          if h \<le> last_processed_block then (Continued, last_processed_block, s1)
          else
            (case eth_get_block_number c s1 of
               (Inl e, s2) \<Rightarrow> (Raised e, last_processed_block, s2)
             | (Inr h', s2) \<Rightarrow>
                 (case eth_filter c contract_filter s2 of
                    (Inl e, s3) \<Rightarrow> (Raised e, h', s3)
                  | (Inr fid, s3) \<Rightarrow>
                      (case eth_get_filter_changes c fid s3 of
                         (Inl e, s4) \<Rightarrow> (Raised e, h', s4)
                       | (Inr new_entries, s4) \<Rightarrow>
                           let s5 = logger INFO (NewEntries new_entries) s4;
                               s6 = process_entries c new_entries s5
                           in (Completed, h', time_sleep 100 s6)))))"

text \<open>One iteration: the \<^verbatim>\<open>try\<close> block and its \<^verbatim>\<open>except Exception\<close> clause.\<close>

definition loop_iteration :: "'w client \<Rightarrow> filter_params \<Rightarrow> int \<Rightarrow> 'w st \<Rightarrow> int \<times> 'w st" where
  "loop_iteration c contract_filter last_processed_block s =
     (case loop_body c contract_filter last_processed_block s of
        (Raised e, l, s1) \<Rightarrow> (l, time_sleep 1000 (logger ERROR (ErrorInIndexer e) s1))
      | (_, l, s1) \<Rightarrow> (l, s1))"

text \<open>
  The \<^verbatim>\<open>while not self.stop_indexing\<close> loop. The flag is written by \<^verbatim>\<open>stop()\<close> on the
  owner's thread, so the loop takes a schedule: one entry per evaluation of the loop
  condition, \<open>True\<close> where the owner has set the flag before that evaluation. The result
  is \<open>None\<close> when the schedule ends with the loop still running.
\<close>

fun poll_loop :: "'w client \<Rightarrow> filter_params \<Rightarrow> bool list \<Rightarrow> int \<Rightarrow> 'w st \<Rightarrow> (int \<times> 'w st) option" where
  "poll_loop c cf [] last_processed_block s = None"
| "poll_loop c cf (b # sched) last_processed_block s =
     (let s1 = (if b then s\<lparr>self := (self s)\<lparr>stop_indexing := True\<rparr>\<rparr> else s) in
      if stop_indexing (self s1) then Some (last_processed_block, s1)
      else (case loop_iteration c cf last_processed_block s1 of
              (l, s2) \<Rightarrow> poll_loop c cf sched l s2))"

definition run_indexer :: "'w client \<Rightarrow> bool list \<Rightarrow> 'w st \<Rightarrow> (int \<times> 'w st) option" where
  "run_indexer c sched s =
     (case intent_matching_contract (self s) of
        None \<Rightarrow> Some (0, logger ERROR ContractNotInitialized s)
      | Some k \<Rightarrow>
          let contract_filter = \<lparr>fp_address = address k, fromBlock = ''latest''\<rparr>;
              s1 = logger INFO StartingToListen s
          in poll_loop c contract_filter sched 0 s1)"

subsection \<open>Construction, start and stop\<close>

definition init :: "bool \<Rightarrow> contract option \<Rightarrow> string option \<Rightarrow> indexer" where
  "init w3 imc url =
     \<lparr>web3 = w3, intent_matching_contract = imc, intent_matching_url = url,
      stop_indexing = False, indexer_thread = None,
      current_room_id = None, current_order_id = None, base_url = None\<rparr>"

text \<open>
  \<^verbatim>\<open>start()\<close> creates and starts the worker thread; what the worker then does is
  \<open>run_indexer\<close>.
\<close>

definition start :: "'w st \<Rightarrow> 'w st" where
  "start s =
     (if \<not> web3 (self s) \<or> intent_matching_contract (self s) = None then
        logger WARNING ComponentsNotInitialized s
      else
        let s1 = s\<lparr>self := (self s)\<lparr>stop_indexing := False, indexer_thread := Some (Thread True)\<rparr>\<rparr>
        in logger INFO ServiceStarted (emit ThreadStart s1))"

text \<open>
  \<^verbatim>\<open>stop()\<close>. Whether the worker has exited when the bounded join returns is not
  decided here; the thread field is left as it is.
\<close>

definition stop :: "'w st \<Rightarrow> 'w st" where
  "stop s =
     (case indexer_thread (self s) of
        None \<Rightarrow> s
      | Some t \<Rightarrow>
          if is_alive t then
            logger INFO IndexerStopped
              (emit (Join 2000) (s\<lparr>self := (self s)\<lparr>stop_indexing := True\<rparr>\<rparr>))
          else s)"

text \<open>
  The sibling \<^verbatim>\<open>PINAIAgentSDK.stop\<close> of \<^verbatim>\<open>pinai_agent_sdk.py\<close>, which stops the message
  polling thread: the same test, flag, bounded join and info record, and an \<^verbatim>\<open>else\<close>
  branch that logs a warning.
\<close>

record sdk =
  stop_polling :: bool
  polling_thread :: "thread option"

record sdk_st =
  sdk_self :: sdk
  sdk_trace :: "action list"

definition sdk_stop :: "sdk_st \<Rightarrow> sdk_st" where
  "sdk_stop s =
     (case polling_thread (sdk_self s) of
        None \<Rightarrow> s\<lparr>sdk_trace := sdk_trace s @ [Log WARNING NoActivePollingThread]\<rparr>
      | Some t \<Rightarrow>
          if is_alive t then
            s\<lparr>sdk_self := (sdk_self s)\<lparr>stop_polling := True\<rparr>,
              sdk_trace := sdk_trace s @ [Join 2000, Log INFO StoppedListening]\<rparr>
          else s\<lparr>sdk_trace := sdk_trace s @ [Log WARNING NoActivePollingThread]\<rparr>)"

subsection \<open>Observing the trace\<close>

text \<open>The HTTP POSTs, the filters installed and the filter ids polled, in order.\<close>

fun posts :: "action list \<Rightarrow> (string \<times> bid_data) list" where
  "posts [] = []"
| "posts (HttpPost url bid # as) = (url, bid) # posts as"
| "posts (_ # as) = posts as"

fun new_filters :: "action list \<Rightarrow> filter_params list" where
  "new_filters [] = []"
| "new_filters (NewFilter p # as) = p # new_filters as"
| "new_filters (_ # as) = new_filters as"

fun fetches :: "action list \<Rightarrow> nat list" where
  "fetches [] = []"
| "fetches (GetFilterChanges fid # as) = fid # fetches as"
| "fetches (_ # as) = fetches as"

subsection \<open>A scripted environment\<close>

text \<open>
  A stand-in for the collaborators, used to run the indexer on concrete inputs: block
  heights and filter batches are served from lists, each new filter gets the next id,
  \<^verbatim>\<open>getOrder\<close> gives the scripted answer and every POST is answered with status 200.
  \<open>toy_digest\<close> stands in for keccak (the codes of the first 32 characters, padded
  with zeros); the general theorems hold for every digest function.
\<close>

record script =
  heights :: "(exn + int) list"
  batches :: "(exn + log_entry list) list"
  order_result :: "exn + order"
  next_filter_id :: nat

definition toy_digest :: "string \<Rightarrow> byte list" where
  "toy_digest s = take 32 (map of_char s @ replicate 32 0)"

definition scripted :: "script client" where
  "scripted =
     \<lparr>get_block_number =
        (\<lambda>w. case heights w of
                [] \<Rightarrow> (Inl (ClientError ''end of script''), w)
              | h # hs \<Rightarrow> (h, w\<lparr>heights := hs\<rparr>)),
      new_filter = (\<lambda>p w. (Inr (next_filter_id w), w\<lparr>next_filter_id := Suc (next_filter_id w)\<rparr>)),
      get_filter_changes =
        (\<lambda>fid w. case batches w of
                    [] \<Rightarrow> (Inr [], w)
                  | b # bs \<Rightarrow> (b, w\<lparr>batches := bs\<rparr>)),
      get_order = (\<lambda>oid w. (order_result w, w)),
      requests_post = (\<lambda>url bid w. (Inr \<lparr>status_code = 200, json = Inr ''{}''\<rparr>, w)),
      keccak = toy_digest,
      hex_prefix = True\<rparr>"

definition fresh :: "script \<Rightarrow> script st" where
  "fresh w =
     \<lparr>self = init True (Some \<lparr>address = ''0x5FbDB2315678afecb367f032d93F642f64180aa3''\<rparr>) None,
      world = w, trace = []\<rparr>"

text \<open>The entries and topics of the scenarios evaluated below.\<close>

definition order_id_5 :: "byte list" where
  "order_id_5 = replicate 31 0 @ [5]"

definition user_abc :: "byte list" where
  "user_abc = replicate 30 0 @ [0x0a, 0xbc]"

definition idle :: script where
  "idle = \<lparr>heights = [], batches = [], order_result = Inl (ClientError ''execution reverted''),
            next_filter_id = 0\<rparr>"

definition order_created_entry :: log_entry where
  "order_created_entry = \<lparr>topics = [toy_digest OrderCreated, order_id_5, user_abc], data = []\<rparr>"

definition unknown_entry :: log_entry where
  "unknown_entry = \<lparr>topics = [replicate 32 0xff], data = []\<rparr>"

definition empty_entry :: log_entry where
  "empty_entry = \<lparr>topics = [], data = []\<rparr>"

definition short_matched_entry :: log_entry where
  "short_matched_entry = \<lparr>topics = [toy_digest OrderMatched], data = []\<rparr>"

definition matched_entry :: log_entry where
  "matched_entry = \<lparr>topics = [toy_digest OrderMatched, order_id_5], data = []\<rparr>"

definition script_of :: "(exn + int) list \<Rightarrow> (exn + log_entry list) list \<Rightarrow> script" where
  "script_of hs bs = idle\<lparr>heights := hs, batches := bs\<rparr>"

definition contract_filter0 :: filter_params where
  "contract_filter0 = \<lparr>fp_address = ''0x5FbDB2315678afecb367f032d93F642f64180aa3'', fromBlock = ''latest''\<rparr>"

definition bad_completed_entry :: log_entry where
  "bad_completed_entry = \<lparr>topics = [toy_digest OrderCompleted, []], data = []\<rparr>"

definition bid5 :: bid_data where
  "bid5 = \<lparr>orderId = 5, userId = ''0x0000000000000000000000000000000000000abc'', agentId = 0, amount = 100\<rparr>"

section \<open>Basic facts\<close>

lemma posts_append: "posts (xs @ ys) = posts xs @ posts ys"
  by (induction xs rule: posts.induct) simp_all

lemma new_filters_append: "new_filters (xs @ ys) = new_filters xs @ new_filters ys"
  by (induction xs rule: new_filters.induct) simp_all

lemma fetches_append: "fetches (xs @ ys) = fetches xs @ fetches ys"
  by (induction xs rule: fetches.induct) simp_all

lemma trace_logger: "trace (logger l m s) = trace s @ [Log l m]"
  by (simp add: logger_def emit_def)

lemma self_logger: "self (logger l m s) = self s"
  by (simp add: logger_def emit_def)

lemma world_logger: "world (logger l m s) = world s"
  by (simp add: logger_def emit_def)

lemma trace_time_sleep: "trace (time_sleep n s) = trace s @ [Sleep n]"
  by (simp add: time_sleep_def emit_def)

lemma self_time_sleep: "self (time_sleep n s) = self s"
  by (simp add: time_sleep_def emit_def)

lemma external_eq:
  "external a f s = (fst (f (world s)), s\<lparr>world := snd (f (world s)), trace := trace s @ [a]\<rparr>)"
  by (simp add: external_def split: prod.splits)

section \<open>Hex encoding and decoding\<close>

lemma hex_val_hex_digit: "n < 16 \<Longrightarrow> hex_val (hex_digit n) = Some n"
  by (auto simp: hex_val_def hex_digit_def Let_def)

lemma hex_digit_inj: "m < 16 \<Longrightarrow> n < 16 \<Longrightarrow> hex_digit m = hex_digit n \<Longrightarrow> m = n"
  using hex_val_hex_digit by (metis option.inject)

lemma hex_digit_not_x: "n < 16 \<Longrightarrow> hex_digit n \<noteq> CHR ''x'' \<and> hex_digit n \<noteq> CHR ''X''"
proof -
  assume "n < 16"
  then have "hex_val (hex_digit n) = Some n" by (rule hex_val_hex_digit)
  moreover have "hex_val CHR ''x'' = None" "hex_val CHR ''X'' = None"
    by (simp_all add: hex_val_def)
  ultimately show ?thesis by auto
qed

lemma unat_div16: "unat (b::byte) div 16 < 16"
proof -
  have "unat b < 256" using unsigned_less[of b, where 'a = nat] by simp
  then show ?thesis by simp
qed

lemma hex_byte_inj: "hex_byte a = hex_byte b \<Longrightarrow> a = b"
proof -
  assume h: "hex_byte a = hex_byte b"
  have 1: "unat a div 16 = unat b div 16"
    using h hex_digit_inj[OF unat_div16 unat_div16] by (simp add: hex_byte_def)
  have 2: "unat a mod 16 = unat b mod 16"
    using h hex_digit_inj[of "unat a mod 16" "unat b mod 16"] by (simp add: hex_byte_def)
  have "unat a = unat b" using 1 2 by (metis div_mult_mod_eq)
  then show ?thesis by (simp add: word_unat_eq_iff)
qed

lemma bytes_hex_Cons: "bytes_hex (b # bs) = hex_digit (unat b div 16) # hex_digit (unat b mod 16) # bytes_hex bs"
  by (simp add: bytes_hex_def hex_byte_def)

lemma bytes_hex_Nil: "bytes_hex [] = []"
  by (simp add: bytes_hex_def)

lemma bytes_hex_inj: "bytes_hex xs = bytes_hex ys \<Longrightarrow> xs = ys"
proof (induction xs arbitrary: ys)
  case Nil
  then show ?case by (cases ys) (simp_all add: bytes_hex_Cons bytes_hex_Nil)
next
  case (Cons x xs)
  then obtain y ys' where ys: "ys = y # ys'" by (cases ys) (auto simp: bytes_hex_Cons bytes_hex_Nil)
  from Cons.prems ys have "hex_byte x = hex_byte y" "bytes_hex xs = bytes_hex ys'"
    by (simp_all add: bytes_hex_Cons hex_byte_def)
  then show ?case using Cons.IH ys hex_byte_inj by blast
qed

lemma hexbytes_hex_inj: "hexbytes_hex p xs = hexbytes_hex p ys \<Longrightarrow> xs = ys"
  by (rule bytes_hex_inj) (simp add: hexbytes_hex_def)

lemma length_bytes_hex: "length (bytes_hex bs) = 2 * length bs"
  by (induction bs) (simp_all add: bytes_hex_Cons bytes_hex_Nil)

lemma bytes_hex_append: "bytes_hex (xs @ ys) = bytes_hex xs @ bytes_hex ys"
  by (simp add: bytes_hex_def)

lemma parse_hex_bytes_hex: "parse_hex acc (bytes_hex bs) = Inr (be_int acc bs)"
proof (induction bs arbitrary: acc)
  case Nil
  then show ?case by (simp add: bytes_hex_Nil)
next
  case (Cons b bs)
  have d: "16 * (16 * acc + int (unat b div 16)) + int (unat b mod 16) = 256 * acc + uint b"
  proof -
    have "int (unat b) = 16 * int (unat b div 16) + int (unat b mod 16)"
      by (metis mult_div_mod_eq of_nat_add of_nat_mult of_nat_numeral)
    then show ?thesis by simp
  qed
  have m: "hex_val (hex_digit (unat b mod 16)) = Some (unat b mod 16)"
    by (rule hex_val_hex_digit) simp
  have "parse_hex acc (bytes_hex (b # bs)) =
        parse_hex (16 * (16 * acc + int (unat b div 16)) + int (unat b mod 16)) (bytes_hex bs)"
    by (simp only: bytes_hex_Cons parse_hex.simps hex_val_hex_digit[OF unat_div16] m option.case)
  also have "\<dots> = parse_hex (256 * acc + uint b) (bytes_hex bs)"
    by (simp only: d)
  finally show ?case
    using Cons.IH[of "256 * acc + uint b"] by simp
qed

lemma py_int16_hexbytes_hex:
  "py_int16 (hexbytes_hex p bs) = (if bs = [] then Inl ValueError else Inr (be_int 0 bs))"
proof (cases bs)
  case Nil
  then show ?thesis by (simp add: py_int16_def hexbytes_hex_def bytes_hex_Nil)
next
  case (Cons b bs')
  have nx: "hex_digit (unat b mod 16) \<noteq> CHR ''x''" "hex_digit (unat b mod 16) \<noteq> CHR ''X''"
    using hex_digit_not_x[of "unat b mod 16"] by simp_all
  have ne: "bytes_hex bs \<noteq> []" using Cons by (simp add: bytes_hex_Cons)
  show ?thesis
  proof (cases p)
    case True
    then show ?thesis using Cons ne
      by (simp add: py_int16_def hexbytes_hex_def parse_hex_bytes_hex)
  next
    case False
    then show ?thesis using Cons nx ne parse_hex_bytes_hex[of 0 bs]
      by (simp add: py_int16_def hexbytes_hex_def bytes_hex_Cons)
  qed
qed

lemma last40_hexbytes_hex:
  assumes "length t = 32"
  shows "last40 (hexbytes_hex p t) = bytes_hex (drop 12 t)"
proof -
  have t: "t = take 12 t @ drop 12 t" by simp
  have l: "length (bytes_hex (take 12 t)) = 24" using assms by (simp add: length_bytes_hex)
  have "hexbytes_hex p t = ((if p then ''0x'' else '''') @ bytes_hex (take 12 t)) @ bytes_hex (drop 12 t)"
    unfolding hexbytes_hex_def using bytes_hex_append[of "take 12 t" "drop 12 t"] by simp
  moreover have "length (hexbytes_hex p t) - 40 = length ((if p then ''0x'' else '''') @ bytes_hex (take 12 t))"
    using assms l by (simp add: hexbytes_hex_def length_bytes_hex)
  ultimately show ?thesis unfolding last40_def by (metis append_eq_conv_conj)
qed

section \<open>Bid submission\<close>

lemma submit_bid_cases:
  "\<exists>l m. submit_bid c bid s =
     logger l m (s\<lparr>self := (self s)\<lparr>base_url := Some ''http://localhost:3000''\<rparr>,
        world := snd (requests_post c ''http://localhost:3000/bid'' bid (world s)),
        trace := trace s @ [HttpPost ''http://localhost:3000/bid'' bid]\<rparr>)"
  by (auto simp: submit_bid_def submit_bid_body_def external_def Let_def
           split: prod.splits sum.splits)

lemma posts_submit_bid:
  "posts (trace (submit_bid c bid s)) = posts (trace s) @ [(''http://localhost:3000/bid'', bid)]"
  using submit_bid_cases[of c bid s] by (auto simp: trace_logger posts_append)

text \<open>
  C7. Every call of \<^verbatim>\<open>_submit_bid\<close>, in any state (whatever \<open>base_url\<close> and
  \<open>intent_matching_url\<close> held before), leaves \<open>base_url\<close> equal to
  \<^verbatim>\<open>http://localhost:3000\<close>, adds exactly one POST, to \<^verbatim>\<open>http://localhost:3000/bid\<close> with
  the given body, and the request the HTTP client receives is that one.
\<close>

theorem submit_bid_always_localhost:
  "base_url (self (submit_bid c bid s)) = Some ''http://localhost:3000'' \<and>
   posts (trace (submit_bid c bid s)) = posts (trace s) @ [(''http://localhost:3000/bid'', bid)] \<and>
   world (submit_bid c bid s) = snd (requests_post c ''http://localhost:3000/bid'' bid (world s)) \<and>
   intent_matching_url (self (submit_bid c bid s)) = intent_matching_url (self s)"
  using submit_bid_cases[of c bid s]
  by (auto simp: trace_logger self_logger world_logger posts_append)

section \<open>Concrete values of the scenarios\<close>

lemma toy_digest_distinct:
  "toy_digest OrderCreated \<noteq> toy_digest OrderMatched"
  "toy_digest OrderCreated \<noteq> toy_digest AddressesTracked"
  "toy_digest OrderCreated \<noteq> toy_digest OrderCompleted"
  by code_simp+

lemma be_int_order_id_5: "be_int 0 order_id_5 = 5"
  by code_simp

lemma hex_user_abc: "bytes_hex (drop 12 user_abc) = ''0000000000000000000000000000000000000abc''"
  by code_simp

lemma unknown_not_in_table: "event_signatures scripted (hexbytes_hex (hex_prefix scripted) (replicate 32 0xff)) = None"
  by code_simp

section \<open>Dispatch of an OrderCreated entry\<close>

lemma hexbytes_hex_eq_iff: "hexbytes_hex p xs = hexbytes_hex p ys \<longleftrightarrow> xs = ys"
  using hexbytes_hex_inj by blast

lemma event_signatures_OrderCreated:
  assumes "keccak c OrderCreated \<noteq> keccak c OrderMatched"
      and "keccak c OrderCreated \<noteq> keccak c AddressesTracked"
      and "keccak c OrderCreated \<noteq> keccak c OrderCompleted"
  shows "event_signatures c (hexbytes_hex (hex_prefix c) (keccak c OrderCreated)) = Some HandleOrderCreated"
  using assms by (simp add: event_signatures_def hexbytes_hex_eq_iff)

lemma handle_order_created_wellformed:
  assumes "topics ev = t0 # t1 # t2 # ts" "t1 \<noteq> []" "length t2 = 32"
  shows "handle_order_created c ev s =
     submit_bid c \<lparr>orderId = be_int 0 t1, userId = ''0x'' @ bytes_hex (drop 12 t2), agentId = 0, amount = 100\<rparr>
       (logger INFO (OrderCreatedMsg (be_int 0 t1) (''0x'' @ bytes_hex (drop 12 t2))) s)"
  using assms
  by (simp add: handle_order_created_def handle_order_created_body_def topic_int_def topic_def
        py_int16_hexbytes_hex last40_hexbytes_hex Let_def)

lemma process_event_order_created:
  assumes "topics ev = keccak c OrderCreated # t1 # t2 # ts"
      and "keccak c OrderCreated \<noteq> keccak c OrderMatched"
      and "keccak c OrderCreated \<noteq> keccak c AddressesTracked"
      and "keccak c OrderCreated \<noteq> keccak c OrderCompleted"
      and "t1 \<noteq> []" "length t2 = 32"
  shows "process_event c ev s =
     logger DEBUG (ProcessedEvent (hexbytes_hex (hex_prefix c) (keccak c OrderCreated)))
      (submit_bid c \<lparr>orderId = be_int 0 t1, userId = ''0x'' @ bytes_hex (drop 12 t2), agentId = 0, amount = 100\<rparr>
       (logger INFO (OrderCreatedMsg (be_int 0 t1) (''0x'' @ bytes_hex (drop 12 t2)))
         (logger INFO (ProcessingEvent ev) s)))"
  using assms(1)
  by (simp add: process_event_def process_event_body_def topic_def Let_def
        event_signatures_OrderCreated[OF assms(2,3,4)]
        handle_order_created_wellformed[OF assms(1) assms(5,6)])

text \<open>
  C1. Take any entry whose topic 0 is the digest of the OrderCreated signature (a digest
  that differs from those of the other three signatures, as keccak's do), whose topic 1
  is a non-empty byte string and whose topic 2 has 32 bytes. Dispatching it adds exactly
  one POST, to \<^verbatim>\<open>http://localhost:3000/bid\<close>, with \<open>orderId\<close> the big-endian value of
  topic 1, \<open>userId\<close> the string \<^verbatim>\<open>0x\<close> followed by the hex digits of the last 20 bytes
  of topic 2 (its last 40 hex digits), \<open>agentId\<close> 0 and \<open>amount\<close> 100. The witness is
  the scenario of the specification: order id 5 and an address ending in \<^verbatim>\<open>abc\<close>.
\<close>

theorem order_created_posts_one_bid:
  assumes "topics ev = keccak c OrderCreated # t1 # t2 # ts"
      and "keccak c OrderCreated \<noteq> keccak c OrderMatched"
      and "keccak c OrderCreated \<noteq> keccak c AddressesTracked"
      and "keccak c OrderCreated \<noteq> keccak c OrderCompleted"
      and "t1 \<noteq> []" "length t2 = 32"
  shows "posts (trace (process_event c ev s)) = posts (trace s) @
     [(''http://localhost:3000/bid'',
       \<lparr>orderId = be_int 0 t1, userId = ''0x'' @ bytes_hex (drop 12 t2), agentId = 0, amount = 100\<rparr>)]"
  by (simp add: process_event_order_created[OF assms] trace_logger posts_append posts_submit_bid)

theorem order_created_posts_one_bid_witness:
  "posts (trace (process_event scripted order_created_entry (fresh idle))) =
     [(''http://localhost:3000/bid'',
       \<lparr>orderId = 5, userId = ''0x0000000000000000000000000000000000000abc'', agentId = 0, amount = 100\<rparr>)]"
proof -
  have h1: "topics order_created_entry = keccak scripted OrderCreated # order_id_5 # user_abc # []"
    by (simp add: order_created_entry_def scripted_def)
  have h2: "keccak scripted OrderCreated \<noteq> keccak scripted OrderMatched"
    and h3: "keccak scripted OrderCreated \<noteq> keccak scripted AddressesTracked"
    and h4: "keccak scripted OrderCreated \<noteq> keccak scripted OrderCompleted"
    by (simp_all add: scripted_def toy_digest_distinct)
  have h5: "order_id_5 \<noteq> []" by (simp add: order_id_5_def)
  have h6: "length user_abc = 32" by (simp add: user_abc_def)
  have v: "posts (trace (fresh idle)) = []" by (simp add: fresh_def)
  show ?thesis
    using order_created_posts_one_bid[OF h1 h2 h3 h4 h5 h6, of "fresh idle"]
    by (simp only: v be_int_order_id_5 hex_user_abc append_Nil append_Cons)
qed

section \<open>Entries without a known signature\<close>

text \<open>
  C5. An entry with no topic at all, and an entry whose first topic in hex is not a key
  of the signature table, are dispatched without effect: \<open>process_event\<close> returns
  normally, the fields of the indexer and the world are as before, and the trace grows
  only by log records (the "processing" record, and for the empty topic list the error
  record of the caught IndexError). No handler ran: the debug record that follows every
  handler call is absent, and so is every external call.
\<close>

theorem unknown_or_missing_signature_is_noop:
  "(topics ev = [] \<longrightarrow>
      process_event c ev s =
        s\<lparr>trace := trace s @ [Log INFO (ProcessingEvent ev), Log ERROR (ErrorProcessingEvent IndexError)]\<rparr>) \<and>
   (\<forall>t0 ts. topics ev = t0 # ts \<and> hexbytes_hex (hex_prefix c) t0 \<notin> dom (event_signatures c) \<longrightarrow>
      process_event c ev s = s\<lparr>trace := trace s @ [Log INFO (ProcessingEvent ev)]\<rparr>)"
  by (auto simp: process_event_def process_event_body_def topic_def Let_def logger_def emit_def domIff)

theorem unknown_or_missing_signature_is_noop_witness:
  "process_event scripted empty_entry (fresh idle) =
     (fresh idle)\<lparr>trace := [Log INFO (ProcessingEvent empty_entry), Log ERROR (ErrorProcessingEvent IndexError)]\<rparr> \<and>
   process_event scripted unknown_entry (fresh idle) =
     (fresh idle)\<lparr>trace := [Log INFO (ProcessingEvent unknown_entry)]\<rparr>"
proof -
  have e: "topics empty_entry = []" by (simp add: empty_entry_def)
  have u: "topics unknown_entry = replicate 32 0xff # []" by (simp add: unknown_entry_def)
  have n: "hexbytes_hex (hex_prefix scripted) (replicate 32 0xff) \<notin> dom (event_signatures scripted)"
    using unknown_not_in_table by (simp only: domIff not_not)
  have t: "trace (fresh idle) = []" by (simp add: fresh_def)
  have 1: "process_event scripted empty_entry (fresh idle) =
     (fresh idle)\<lparr>trace := trace (fresh idle) @ [Log INFO (ProcessingEvent empty_entry), Log ERROR (ErrorProcessingEvent IndexError)]\<rparr>"
    using unknown_or_missing_signature_is_noop[of empty_entry scripted "fresh idle"] e by blast
  have 2: "process_event scripted unknown_entry (fresh idle) =
     (fresh idle)\<lparr>trace := trace (fresh idle) @ [Log INFO (ProcessingEvent unknown_entry)]\<rparr>"
    using unknown_or_missing_signature_is_noop[of unknown_entry scripted "fresh idle"] u n by blast
  show ?thesis using 1 2 by (simp only: t append_Nil simp_thms)
qed

section \<open>Failure inside the OrderMatched handler\<close>

lemma handle_order_matched_decode_fails:
  "topic_int c ev 1 = Inl e \<Longrightarrow>
   handle_order_matched c ev s = logger ERROR (ErrorHandlingOrderMatched e) s"
  by (simp add: handle_order_matched_def handle_order_matched_body_def)

lemma handle_order_matched_read_fails:
  "topic_int c ev 1 = Inr oid \<Longrightarrow> fst (contract_getOrder c oid s) = Inl e \<Longrightarrow>
   handle_order_matched c ev s = logger ERROR (ErrorHandlingOrderMatched e) (snd (contract_getOrder c oid s))"
  by (cases "contract_getOrder c oid s") (simp add: handle_order_matched_def handle_order_matched_body_def)

lemma self_contract_getOrder: "self (snd (contract_getOrder c oid s)) = self s"
  by (simp add: contract_getOrder_def external_eq split: option.splits)

text \<open>
  C6. When the OrderMatched handler fails, because the order id topic does not decode
  (missing or empty topic) or because the \<^verbatim>\<open>getOrder\<close> read raises, every field of the
  indexer is as before, in particular \<open>current_order_id\<close>; the handler returns
  normally and its last act is the error log record.
\<close>

theorem order_matched_failure_keeps_state:
  assumes "topic_int c ev 1 = Inl e \<or>
           (\<exists>oid. topic_int c ev 1 = Inr oid \<and> fst (contract_getOrder c oid s) = Inl e)"
  shows "self (handle_order_matched c ev s) = self s \<and>
         current_order_id (self (handle_order_matched c ev s)) = current_order_id (self s) \<and>
         last (trace (handle_order_matched c ev s)) = Log ERROR (ErrorHandlingOrderMatched e)"
  using assms
  by (auto simp: handle_order_matched_decode_fails handle_order_matched_read_fails
        self_logger trace_logger self_contract_getOrder)

theorem order_matched_failure_keeps_state_witness:
  "self (handle_order_matched scripted short_matched_entry (fresh idle)) = self (fresh idle) \<and>
   last (trace (handle_order_matched scripted short_matched_entry (fresh idle))) =
     Log ERROR (ErrorHandlingOrderMatched IndexError) \<and>
   self (handle_order_matched scripted matched_entry (fresh idle)) = self (fresh idle) \<and>
   last (trace (handle_order_matched scripted matched_entry (fresh idle))) =
     Log ERROR (ErrorHandlingOrderMatched (ClientError ''execution reverted''))"
proof -
  have a: "topic_int scripted short_matched_entry 1 = Inl IndexError"
    by (simp add: topic_int_def topic_def short_matched_entry_def)
  have ne: "order_id_5 \<noteq> []" by (simp add: order_id_5_def)
  have b: "topic_int scripted matched_entry 1 = Inr 5"
    using ne by (simp add: topic_int_def topic_def matched_entry_def py_int16_hexbytes_hex be_int_order_id_5)
  have r: "fst (contract_getOrder scripted 5 (fresh idle)) = Inl (ClientError ''execution reverted'')"
    by (simp add: contract_getOrder_def external_eq fresh_def init_def scripted_def idle_def)
  show ?thesis
    using order_matched_failure_keeps_state[of scripted short_matched_entry IndexError "fresh idle"]
      order_matched_failure_keeps_state[of scripted matched_entry "ClientError ''execution reverted''" "fresh idle"] a b r
    by blast
qed

section \<open>One iteration of the poll loop\<close>

lemma eth_get_block_number_Inr:
  assumes "eth_get_block_number c s = (Inr h, s1)"
  shows "web3 (self s) \<and> s1 = s\<lparr>world := snd (get_block_number c (world s)), trace := trace s @ [GetBlockNumber]\<rparr>
         \<and> fst (get_block_number c (world s)) = Inr h"
  using assms by (auto simp: eth_get_block_number_def external_eq split: if_splits)

lemma loop_body_idle:
  assumes "eth_get_block_number c s = (Inr h, s1)" "h \<le> l"
  shows "loop_body c cf l s = (Continued, l, s1)"
  using assms by (simp add: loop_body_def)

lemma loop_iteration_idle:
  assumes "eth_get_block_number c s = (Inr h, s1)" "h \<le> l"
  shows "loop_iteration c cf l s = (l, s1)"
  using loop_body_idle[OF assms] by (simp add: loop_iteration_def)

text \<open>
  C9. In an iteration whose height read returns a value not greater than the cursor, the
  read is the only thing that happens: the iteration ends with the cursor unchanged, the
  trace grows by the one \<open>GetBlockNumber\<close> call, so no filter is installed, no filter
  changes are fetched, no event is dispatched (no log record, no POST), and the fields of
  the indexer are as before.
\<close>

theorem idle_iteration_is_noop:
  assumes "eth_get_block_number c s = (Inr h, s1)" and "h \<le> last_processed_block"
  shows "loop_iteration c cf last_processed_block s = (last_processed_block, s1) \<and>
         trace s1 = trace s @ [GetBlockNumber] \<and>
         fetches (trace s1) = fetches (trace s) \<and>
         new_filters (trace s1) = new_filters (trace s) \<and>
         posts (trace s1) = posts (trace s) \<and>
         self s1 = self s"
  using loop_iteration_idle[OF assms] eth_get_block_number_Inr[OF assms(1)]
  by (auto simp: fetches_append new_filters_append posts_append)

theorem idle_iteration_is_noop_witness:
  "loop_iteration scripted contract_filter0 100 (fresh (script_of [Inr 100] [])) =
     (100, (fresh (script_of [Inr 100] []))\<lparr>world := script_of [] [], trace := [GetBlockNumber]\<rparr>) \<and>
   fetches (trace (snd (eth_get_block_number scripted (fresh (script_of [Inr 100] []))))) = []"
proof -
  let ?s = "fresh (script_of [Inr 100] [])"
  have f: "fst (eth_get_block_number scripted ?s) = Inr 100" by code_simp
  have s: "snd (eth_get_block_number scripted ?s) =
             ?s\<lparr>world := script_of [] [], trace := [GetBlockNumber]\<rparr>"
    by (simp add: eth_get_block_number_def external_eq fresh_def init_def scripted_def script_of_def idle_def)
  have r: "eth_get_block_number scripted ?s = (Inr 100, snd (eth_get_block_number scripted ?s))"
    using f by (metis prod.collapse)
  have t: "fetches (trace ?s) = []" by (simp add: fresh_def)
  show ?thesis
    using idle_iteration_is_noop[OF r, of 100 contract_filter0] by (simp add: s t)
qed

lemma loop_iteration_Raised:
  "loop_body c cf l s = (Raised e, l', s1) \<Longrightarrow>
   loop_iteration c cf l s = (l', time_sleep 1000 (logger ERROR (ErrorInIndexer e) s1))"
  by (simp add: loop_iteration_def)





section \<open>The worker never sets the stop flag\<close>

lemma stop_submit_bid: "stop_indexing (self (submit_bid c bid s)) = stop_indexing (self s)"
  using submit_bid_cases[of c bid s] by (auto simp: self_logger)

lemma stop_external: "stop_indexing (self (snd (external a f s))) = stop_indexing (self s)"
  by (simp add: external_eq)

lemma stop_contract_getOrder: "stop_indexing (self (snd (contract_getOrder c oid s))) = stop_indexing (self s)"
  by (simp add: self_contract_getOrder)

lemma stop_handle_order_created: "stop_indexing (self (handle_order_created c ev s)) = stop_indexing (self s)"
  by (simp add: handle_order_created_def handle_order_created_body_def Let_def self_logger stop_submit_bid
      split: sum.splits)

lemma stop_handle_order_matched: "stop_indexing (self (handle_order_matched c ev s)) = stop_indexing (self s)"
proof (cases "topic_int c ev 1")
  case (Inl e)
  then show ?thesis by (simp add: handle_order_matched_decode_fails self_logger)
next
  case (Inr oid)
  then show ?thesis
    using stop_contract_getOrder[of c oid s]
    by (cases "contract_getOrder c oid s")
       (auto simp: handle_order_matched_def handle_order_matched_body_def Let_def self_logger
          split: sum.splits)
qed

lemma stop_handle_order_completed: "stop_indexing (self (handle_order_completed c ev s)) = stop_indexing (self s)"
proof (cases "topic_int c ev 1")
  case (Inl e)
  then show ?thesis by (simp add: handle_order_completed_def handle_order_completed_body_def self_logger)
next
  case (Inr oid)
  then show ?thesis
    using stop_contract_getOrder[of c oid s]
    by (cases "contract_getOrder c oid s")
       (auto simp: handle_order_completed_def handle_order_completed_body_def Let_def self_logger
          split: sum.splits)
qed

lemma stop_run_handler: "stop_indexing (self (run_handler h c ev s)) = stop_indexing (self s)"
  by (cases h) (simp_all add: stop_handle_order_created stop_handle_order_matched
      stop_handle_order_completed handle_addresses_tracked_def)

lemma stop_process_event: "stop_indexing (self (process_event c ev s)) = stop_indexing (self s)"
  by (simp add: process_event_def process_event_body_def Let_def self_logger stop_run_handler
      split: sum.splits option.splits)

lemma stop_process_entries: "stop_indexing (self (process_entries c evs s)) = stop_indexing (self s)"
  by (induction evs arbitrary: s) (simp_all add: stop_process_event)

lemma self_eth_get_block_number: "self (snd (eth_get_block_number c s)) = self s"
  by (simp add: eth_get_block_number_def external_eq)

lemma self_eth_filter: "self (snd (eth_filter c cf s)) = self s"
  by (simp add: eth_filter_def external_eq)

lemma self_eth_get_filter_changes: "self (snd (eth_get_filter_changes c fid s)) = self s"
  by (simp add: eth_get_filter_changes_def external_eq)

lemma stop_loop_body: "stop_indexing (self (snd (snd (loop_body c cf l s)))) = stop_indexing (self s)"
proof -
  obtain r1 s1 where 1: "eth_get_block_number c s = (r1, s1)" by fastforce
  have e1: "self s1 = self s" using self_eth_get_block_number[of c s] 1 by simp
  obtain r2 s2 where 2: "eth_get_block_number c s1 = (r2, s2)" by fastforce
  have e2: "self s2 = self s" using self_eth_get_block_number[of c s1] 2 e1 by simp
  obtain r3 s3 where 3: "eth_filter c cf s2 = (r3, s3)" by fastforce
  have e3: "self s3 = self s" using self_eth_filter[of c cf s2] 3 e2 by simp
  have e4: "\<And>fid r4 s4. eth_get_filter_changes c fid s3 = (r4, s4) \<Longrightarrow> self s4 = self s"
    using self_eth_get_filter_changes[of c _ s3] e3 by (metis snd_conv)
  show ?thesis
    using 1 2 3 e1 e2 e3 e4
    by (auto simp: loop_body_def Let_def self_time_sleep self_logger stop_process_entries
        split: sum.splits prod.splits)
qed

lemma stop_loop_iteration: "stop_indexing (self (snd (loop_iteration c cf l s))) = stop_indexing (self s)"
  using stop_loop_body[of c cf l s]
  by (cases "loop_body c cf l s")
     (auto simp: loop_iteration_def self_time_sleep self_logger split: outcome.splits)

lemma poll_loop_keeps_running:
  "\<not> stop_indexing (self s) \<Longrightarrow> poll_loop c cf (replicate n False) l s = None"
proof (induction n arbitrary: l s)
  case 0
  then show ?case by simp
next
  case (Suc n)
  obtain l' s' where it: "loop_iteration c cf l s = (l', s')" by fastforce
  have "\<not> stop_indexing (self s')" using stop_loop_iteration[of c cf l s] it Suc.prems by simp
  then show ?case using Suc.IH[of s' l'] Suc.prems it by simp
qed

lemma poll_loop_stops_on_flag:
  "\<not> stop_indexing (self s) \<Longrightarrow> \<exists>l' s'. poll_loop c cf (replicate n False @ [True]) l s = Some (l', s')"
proof (induction n arbitrary: l s)
  case 0
  then show ?case by simp
next
  case (Suc n)
  obtain l' s' where it: "loop_iteration c cf l s = (l', s')" by fastforce
  have "\<not> stop_indexing (self s')" using stop_loop_iteration[of c cf l s] it Suc.prems by simp
  then show ?case using Suc.IH[of s' l'] Suc.prems it by simp
qed

section \<open>Exceptions do not end the poller\<close>

text \<open>
  C4. The exceptions of the model are Python's \<^verbatim>\<open>Exception\<close> instances, the ones an
  \<^verbatim>\<open>except Exception\<close> clause catches. For an indexer that has not been told to stop:
  \<^item> when the \<^verbatim>\<open>try\<close> block of an iteration raises \<open>e\<close> (from a height read, from
    installing the filter or from fetching its changes), the loop logs the error, sleeps
    1000 ms and goes on with the next evaluation of the loop condition;
  \<^item> an exception in the dispatcher's \<^verbatim>\<open>try\<close> block, or in the \<^verbatim>\<open>try\<close> block of the
    OrderCreated, OrderMatched or OrderCompleted handler, is logged by that function,
    which then returns normally;
  \<^item> for every client and every number \<open>n\<close> of evaluations of the loop condition
    without a stop request, the loop is still running, and it ends at the first
    evaluation after the owner has set the flag;
  \<^item> in a batch, after any entry (failing or not) a following well-formed OrderCreated
    entry is still dispatched and its bid is posted.
\<close>

theorem poller_survives_exceptions:
  assumes "\<not> stop_indexing (self s)"
  shows "(\<forall>e l s1. loop_body c cf last_processed_block s = (Raised e, l, s1) \<longrightarrow>
            poll_loop c cf (False # sched) last_processed_block s =
              poll_loop c cf sched l (time_sleep 1000 (logger ERROR (ErrorInIndexer e) s1))) \<and>
         (\<forall>e s1. process_event_body c ev s = (Inl e, s1) \<longrightarrow>
            process_event c ev s = logger ERROR (ErrorProcessingEvent e) s1) \<and>
         (\<forall>e s1. handle_order_created_body c ev s = (Inl e, s1) \<longrightarrow>
            handle_order_created c ev s = logger ERROR (ErrorHandlingOrderCreated e) s1) \<and>
         (\<forall>e s1. handle_order_matched_body c ev s = (Inl e, s1) \<longrightarrow>
            handle_order_matched c ev s = logger ERROR (ErrorHandlingOrderMatched e) s1) \<and>
         (\<forall>e s1. handle_order_completed_body c ev s = (Inl e, s1) \<longrightarrow>
            handle_order_completed c ev s = logger ERROR (ErrorHandlingOrderCompleted e) s1) \<and>
         poll_loop c cf (replicate n False) last_processed_block s = None \<and>
         (\<exists>l s'. poll_loop c cf (replicate n False @ [True]) last_processed_block s = Some (l, s')) \<and>
         (\<forall>good t1 t2 ts.
            topics good = keccak c OrderCreated # t1 # t2 # ts \<and>
            keccak c OrderCreated \<noteq> keccak c OrderMatched \<and>
            keccak c OrderCreated \<noteq> keccak c AddressesTracked \<and>
            keccak c OrderCreated \<noteq> keccak c OrderCompleted \<and>
            t1 \<noteq> [] \<and> length t2 = 32 \<longrightarrow>
            posts (trace (process_entries c [ev, good] s)) =
              posts (trace (process_event c ev s)) @
                [(''http://localhost:3000/bid'',
                  \<lparr>orderId = be_int 0 t1, userId = ''0x'' @ bytes_hex (drop 12 t2),
                   agentId = 0, amount = 100\<rparr>)])"
proof (intro conjI allI impI)
  fix e l s1 assume "loop_body c cf last_processed_block s = (Raised e, l, s1)"
  then show "poll_loop c cf (False # sched) last_processed_block s =
              poll_loop c cf sched l (time_sleep 1000 (logger ERROR (ErrorInIndexer e) s1))"
    using assms by (simp add: loop_iteration_Raised)
next
  fix e s1 assume "process_event_body c ev s = (Inl e, s1)"
  then show "process_event c ev s = logger ERROR (ErrorProcessingEvent e) s1"
    by (simp add: process_event_def)
next
  fix e s1 assume "handle_order_created_body c ev s = (Inl e, s1)"
  then show "handle_order_created c ev s = logger ERROR (ErrorHandlingOrderCreated e) s1"
    by (simp add: handle_order_created_def)
next
  fix e s1 assume "handle_order_matched_body c ev s = (Inl e, s1)"
  then show "handle_order_matched c ev s = logger ERROR (ErrorHandlingOrderMatched e) s1"
    by (simp add: handle_order_matched_def)
next
  fix e s1 assume "handle_order_completed_body c ev s = (Inl e, s1)"
  then show "handle_order_completed c ev s = logger ERROR (ErrorHandlingOrderCompleted e) s1"
    by (simp add: handle_order_completed_def)
next
  show "poll_loop c cf (replicate n False) last_processed_block s = None"
    using assms by (rule poll_loop_keeps_running)
next
  show "\<exists>l s'. poll_loop c cf (replicate n False @ [True]) last_processed_block s = Some (l, s')"
    using assms by (rule poll_loop_stops_on_flag)
next
  fix good :: log_entry and t1 t2 ts
  assume a: "topics good = keccak c OrderCreated # t1 # t2 # ts \<and>
            keccak c OrderCreated \<noteq> keccak c OrderMatched \<and>
            keccak c OrderCreated \<noteq> keccak c AddressesTracked \<and>
            keccak c OrderCreated \<noteq> keccak c OrderCompleted \<and>
            t1 \<noteq> [] \<and> length t2 = 32"
  have "process_entries c [ev, good] s = process_event c good (process_event c ev s)" by simp
  then show "posts (trace (process_entries c [ev, good] s)) =
              posts (trace (process_event c ev s)) @
                [(''http://localhost:3000/bid'',
                  \<lparr>orderId = be_int 0 t1, userId = ''0x'' @ bytes_hex (drop 12 t2),
                   agentId = 0, amount = 100\<rparr>)]"
    using a by (simp add: process_event_order_created trace_logger posts_append posts_submit_bid)
qed

theorem poller_survives_exceptions_witness:
  "\<not> stop_indexing (self (fresh (script_of [Inl (ClientError ''rpc down''), Inr 1, Inr 1]
        [Inr [bad_completed_entry, order_created_entry]]))) \<and>
   map_option (\<lambda>(l, s). (l, posts (trace s)))
     (poll_loop scripted contract_filter0 [False, False, True] 0
       (fresh (script_of [Inl (ClientError ''rpc down''), Inr 1, Inr 1]
          [Inr [bad_completed_entry, order_created_entry]])))
     = Some (1, [(''http://localhost:3000/bid'', bid5)])"
proof -
  let ?s = "fresh (script_of [Inl (ClientError ''rpc down''), Inr 1, Inr 1]
        [Inr [bad_completed_entry, order_created_entry]])"
  let ?s1 = "snd (snd (loop_body scripted contract_filter0 0 ?s))"
  let ?t = "time_sleep 1000 (logger ERROR (ErrorInIndexer (ClientError ''rpc down'')) ?s1)"
  have n: "\<not> stop_indexing (self ?s)" by (simp add: fresh_def init_def)
  have b1: "fst (loop_body scripted contract_filter0 0 ?s) = Raised (ClientError ''rpc down'')"
    by code_simp
  have b2: "fst (snd (loop_body scripted contract_filter0 0 ?s)) = 0"
    by code_simp
  have b: "loop_body scripted contract_filter0 0 ?s = (Raised (ClientError ''rpc down''), 0, ?s1)"
    using b1 b2 by (metis prod.collapse)
  have k: "poll_loop scripted contract_filter0 [False, False, True] 0 ?s =
           poll_loop scripted contract_filter0 [False, True] 0 ?t"
    by (rule poller_survives_exceptions[OF n, THEN conjunct1, THEN spec, THEN spec, THEN spec, THEN mp, OF b])
  have v: "map_option (\<lambda>(l, s). (l, posts (trace s)))
             (poll_loop scripted contract_filter0 [False, True] 0 ?t)
           = Some (1, [(''http://localhost:3000/bid'', bid5)])"
    by code_simp
  show ?thesis
    by (simp only: n k v simp_thms)
qed

section \<open>Filters and the cursor on concrete runs\<close>

text \<open>
  C2 does not hold of the code. The filter parameters are built once before the loop,
  but \<^verbatim>\<open>web3.eth.filter\<close> is called inside it: no filter exists when the loop starts,
  and every iteration that sees a higher block installs a new filter and polls that one.
  On the heights 1, 1, 2, 2 (two iterations, two reads each) two filters are installed
  and the two fetches use the two different ids 0 and 1; a run that is stopped at once
  installs none.
\<close>

theorem filter_installed_in_every_iteration:
  "map_option (\<lambda>(l, s). (new_filters (trace s), fetches (trace s)))
     (run_indexer scripted [False, False, True] (fresh (script_of [Inr 1, Inr 1, Inr 2, Inr 2] [])))
     = Some ([contract_filter0, contract_filter0], [0, 1]) \<and>
   map_option (\<lambda>(l, s). new_filters (trace s))
     (run_indexer scripted [True] (fresh (script_of [Inr 1, Inr 1, Inr 2, Inr 2] []))) = Some []"
  by code_simp

text \<open>
  C3 does not hold of the code for every sequence of readings. The cursor starts at 0,
  but the value assigned is a second read of the height, not the one that was compared
  with the cursor. On the readings 5, 5, 6, 3 the cursor is 5 after the first iteration
  and 3 after the second.
\<close>

theorem cursor_decreases_on_lower_second_read:
  "map_option fst (run_indexer scripted [False, True] (fresh (script_of [Inr 5, Inr 5, Inr 6, Inr 3] []))) = Some 5 \<and>
   map_option fst (run_indexer scripted [False, False, True] (fresh (script_of [Inr 5, Inr 5, Inr 6, Inr 3] []))) = Some 3"
  by code_simp

section \<open>Stopping an indexer that is not running\<close>

text \<open>
  Whenever there is no worker thread, or the worker has exited, \<^verbatim>\<open>BlockchainIndexer.stop\<close>
  returns normally with the state as it was, so it writes no log record; the sibling
  \<^verbatim>\<open>PINAIAgentSDK.stop\<close> logs a warning in the same situation and also returns normally.
\<close>

lemma stop_not_running_unchanged:
  assumes "indexer_thread (self s) = None \<or> indexer_thread (self s) = Some (Thread False)"
  shows "stop s = s"
  using assms by (auto simp: stop_def)

lemma sdk_stop_not_running_warns:
  assumes "polling_thread (sdk_self s) = None \<or> polling_thread (sdk_self s) = Some (Thread False)"
  shows "sdk_stop s = s\<lparr>sdk_trace := sdk_trace s @ [Log WARNING NoActivePollingThread]\<rparr>"
  using assms by (auto simp: sdk_stop_def)

text \<open>
  C8 asks that \<^verbatim>\<open>stop()\<close> on an indexer that is not running logs a warning and does not
  raise. The code returns normally but misses the warning: on an indexer that was never
  started the trace after \<^verbatim>\<open>stop()\<close> is empty, so it holds no warning record. The
  \<^verbatim>\<open>else\<close> branch that the sibling method has is absent here.
\<close>

theorem stop_never_started_logs_nothing:
  "trace (stop \<lparr>self = init True (Some \<lparr>address = ''0xabc''\<rparr>) None, world = (), trace = []\<rparr>) = []"
  by (simp add: stop_def init_def)

end
